theory Spec2Isabelle
  imports Main "HOL-Library.Word"
begin

unbundle bit_operations_syntax

section \<open>Diversion sessions (diverter.cc)\<close>

subsection \<open>Syscall numbers of the i386 Linux ABI\<close>

text \<open>
  The build is 32-bit by default (\<^verbatim>\<open>-m32\<close>) and the preload library enters the kernel
  with \<^verbatim>\<open>int $0x80\<close>, so the \<^verbatim>\<open>SYS_*\<close> constants of \<^verbatim>\<open>sys/syscall.h\<close>
  are the i386 numbers.
\<close>

definition SYS_restart_syscall :: int where "SYS_restart_syscall = 0"
definition SYS_fork :: int where "SYS_fork = 2"
definition SYS_write :: int where "SYS_write = 4"
definition SYS_getpid :: int where "SYS_getpid = 20"
definition SYS_kill :: int where "SYS_kill = 37"
definition SYS_ioctl :: int where "SYS_ioctl = 54"
definition SYS_gettimeofday :: int where "SYS_gettimeofday = 78"
definition SYS_ipc :: int where "SYS_ipc = 117"
definition SYS_clone :: int where "SYS_clone = 120"
definition SYS_prctl :: int where "SYS_prctl = 172"
definition SYS_rt_sigprocmask :: int where "SYS_rt_sigprocmask = 175"
definition SYS_rt_sigqueueinfo :: int where "SYS_rt_sigqueueinfo = 178"
definition SYS_fcntl64 :: int where "SYS_fcntl64 = 221"
definition SYS_gettid :: int where "SYS_gettid = 224"
definition SYS_tkill :: int where "SYS_tkill = 238"
definition SYS_exit_group :: int where "SYS_exit_group = 252"
definition SYS_clock_gettime :: int where "SYS_clock_gettime = 265"
definition SYS_tgkill :: int where "SYS_tgkill = 270"
definition SYS_rt_tgsigqueueinfo :: int where "SYS_rt_tgsigqueueinfo = 335"
definition SYS_perf_event_open :: int where "SYS_perf_event_open = 336"

lemmas syscall_numbers =
  SYS_restart_syscall_def SYS_fork_def SYS_write_def SYS_getpid_def SYS_kill_def
  SYS_ioctl_def SYS_gettimeofday_def SYS_ipc_def SYS_clone_def SYS_prctl_def
  SYS_rt_sigprocmask_def SYS_rt_sigqueueinfo_def SYS_fcntl64_def SYS_gettid_def
  SYS_tkill_def SYS_exit_group_def SYS_clock_gettime_def SYS_tgkill_def
  SYS_rt_tgsigqueueinfo_def SYS_perf_event_open_def

subsection \<open>Tasks and their registers\<close>

text \<open>
  \<^verbatim>\<open>Registers\<close> and \<^verbatim>\<open>Task\<close> are declared outside the files at hand; the records
  hold what diverter.cc reads and writes through them. \<open>is_desched_event_syscall\<close> is
  the answer of \<^verbatim>\<open>t->is_desched_event_syscall()\<close> at the current stop,
  \<open>emulated_syscalls_finished\<close> counts the calls of \<^verbatim>\<open>t->finish_emulated_syscall()\<close>,
  and \<open>remote_syscalls\<close> lists, in order, the syscalls that were executed against the
  kernel in the task through \<^verbatim>\<open>AutoRemoteSyscalls::syscall\<close>.
\<close>

record Registers =
  syscall_result :: int
  original_syscallno :: int
  arg1 :: int
  arg2 :: int
  arg3 :: int
  arg4 :: int
  arg5 :: int
  arg6 :: int

record Task =
  regs :: Registers
  is_desched_event_syscall :: bool
  emulated_syscalls_finished :: nat
  remote_syscalls :: "(int \<times> int list) list"
  pending_sig :: int
  child_sig :: int
  tgid :: int
  rec_tid :: int
  breakpoint_user_at_ip :: bool

text \<open>The kernel's answer to a syscall executed in a tracee: number and arguments to result.\<close>

type_synonym kernel = "int \<Rightarrow> int list \<Rightarrow> int"

definition finish_emulated_syscall :: "Task \<Rightarrow> Task" where
  "finish_emulated_syscall t =
     t\<lparr>emulated_syscalls_finished := Suc (emulated_syscalls_finished t)\<rparr>"

definition finish_emulated_syscall_with_ret :: "Task \<Rightarrow> int \<Rightarrow> Task" where
  "finish_emulated_syscall_with_ret t ret =
     (let r = regs t;
          r = r\<lparr>syscall_result := ret\<rparr>;
          t = t\<lparr>regs := r\<rparr>
      in finish_emulated_syscall t)"

text \<open>
  \<^verbatim>\<open>execute_syscall\<close>: the remote-syscall helper saves the task's registers, runs the
  syscall of the current register set in the tracee, and restores the saved registers
  with the syscall's result stored into them.
\<close>

definition execute_syscall :: "kernel \<Rightarrow> Task \<Rightarrow> Task" where
  "execute_syscall k t =
     (let t = finish_emulated_syscall t;
          remote_regs = regs t;
          no = original_syscallno remote_regs;
          as = [arg1 remote_regs, arg2 remote_regs, arg3 remote_regs,
                arg4 remote_regs, arg5 remote_regs, arg6 remote_regs];
          t = t\<lparr>remote_syscalls := remote_syscalls t @ [(no, as)],
                regs := (regs t)\<lparr>syscall_result := k no as\<rparr>\<rparr>;
          remote_regs = remote_regs\<lparr>syscall_result := syscall_result (regs t)\<rparr>
      in t\<lparr>regs := remote_regs\<rparr>)"

definition blacklisted_syscalls :: "int list" where
  "blacklisted_syscalls =
     [SYS_ipc, SYS_kill, SYS_rt_sigqueueinfo, SYS_rt_tgsigqueueinfo, SYS_tgkill, SYS_tkill]"

definition process_syscall :: "kernel \<Rightarrow> Task \<Rightarrow> int \<Rightarrow> Task" where
  "process_syscall k t syscallno =
     (if syscallno = SYS_ioctl then
        (if \<not> is_desched_event_syscall t then execute_syscall k t
         else finish_emulated_syscall_with_ret t 0)
      else if syscallno \<in> set blacklisted_syscalls then t
      else execute_syscall k t)"

subsection \<open>Debugger requests\<close>

text \<open>
  The request types that diverter.cc names; \<open>DREQ_OTHER\<close> stands for every other type of
  \<^verbatim>\<open>debugger_gdb.h\<close>, which the switch sends to its default case.
\<close>

datatype DbgRequestType =
    DREQ_CONTINUE | DREQ_STEP | DREQ_RESTART
  | DREQ_READ_SIGINFO | DREQ_WRITE_SIGINFO | DREQ_SET_QUERY_THREAD
  | DREQ_REMOVE_SW_BREAK | DREQ_REMOVE_HW_BREAK | DREQ_REMOVE_RD_WATCH
  | DREQ_REMOVE_WR_WATCH | DREQ_REMOVE_RDWR_WATCH
  | DREQ_SET_SW_BREAK | DREQ_SET_HW_BREAK | DREQ_SET_RD_WATCH
  | DREQ_SET_WR_WATCH | DREQ_SET_RDWR_WATCH
  | DREQ_OTHER nat

record dbg_request =
  req_type :: DbgRequestType
  target_tid :: int
  mem_len :: nat

datatype dbg_reply =
    Reply_read_siginfo "8 word list"
  | Reply_write_siginfo
  | Notify_stop int int int

text \<open>
  The global diversion \<^verbatim>\<open>session\<close> together with what was sent to the debugger. A
  \<^verbatim>\<open>Task*\<close> is the task's id in \<open>tasks\<close>, \<open>None\<close> for \<^verbatim>\<open>nullptr\<close>.
\<close>

record diversion =
  tasks :: "int \<Rightarrow> Task option"
  diversion_refcount :: int
  dbg_out :: "dbg_reply list"

text \<open>
  What diverter.cc calls but does not define, taken as parameters: the kernel, the
  tracee's run to its next stop (\<^verbatim>\<open>cont_sysemu\<close>, \<^verbatim>\<open>cont_sysemu_singlestep\<close>)
  and the replayer's \<^verbatim>\<open>dispatch_debugger_request\<close>.
\<close>

record world =
  kernel_of :: kernel
  cont_sysemu :: "Task \<Rightarrow> Task"
  cont_sysemu_singlestep :: "Task \<Rightarrow> Task"
  dispatch_debugger_request :: "diversion \<Rightarrow> int option \<Rightarrow> dbg_request \<Rightarrow> diversion"

text \<open>
  Modelled from the spec: \<^verbatim>\<open>ReplaySession::diversion_ref\<close> is declared in session.h,
  which is not at hand; the reference counter is "incremented by READ_SIGINFO".
\<close>

definition diversion_ref :: "diversion \<Rightarrow> diversion" where
  "diversion_ref s = s\<lparr>diversion_refcount := diversion_refcount s + 1\<rparr>"

text \<open>
  Modelled from the spec: \<^verbatim>\<open>ReplaySession::diversion_unref\<close> (session.h, not at
  hand); the reference counter is "decremented by WRITE_SIGINFO".
\<close>

definition diversion_unref :: "diversion \<Rightarrow> diversion" where
  "diversion_unref s = s\<lparr>diversion_refcount := diversion_refcount s - 1\<rparr>"

text \<open>
  Modelled from the spec: \<^verbatim>\<open>ReplaySession::diversion_dying\<close> (session.h, not at
  hand); the diversion is dying when the reference counter "reaches zero".
\<close>

definition diversion_dying :: "diversion \<Rightarrow> bool" where
  "diversion_dying s = (diversion_refcount s = 0)"

text \<open>
  Modelled from the spec: \<^verbatim>\<open>Session::kill_all_tasks\<close> (session.h, not at hand); no
  task of the session is left.
\<close>

definition kill_all_tasks :: "diversion \<Rightarrow> diversion" where
  "kill_all_tasks s = s\<lparr>tasks := Map.empty\<rparr>"

text \<open>
  Modelled from the spec: \<^verbatim>\<open>Session::find_task\<close> (session.h, not at hand); the task
  with the given id, or \<^verbatim>\<open>nullptr\<close>.
\<close>

definition find_task :: "diversion \<Rightarrow> int \<Rightarrow> int option" where
  "find_task s tid = (case tasks s tid of None \<Rightarrow> None | Some tk \<Rightarrow> Some tid)"

text \<open>
  Modelled from the spec: \<^verbatim>\<open>dbg_is_resume_request\<close> (debugger_gdb.h, not at hand);
  the resume-execution requests of the debugger interface are continue and single-step,
  the two that \<^verbatim>\<open>advance\<close> accepts.
\<close>

definition dbg_is_resume_request :: "dbg_request \<Rightarrow> bool" where
  "dbg_is_resume_request req = (req_type req = DREQ_CONTINUE \<or> req_type req = DREQ_STEP)"

definition dbg_reply_read_siginfo :: "diversion \<Rightarrow> 8 word list \<Rightarrow> diversion" where
  "dbg_reply_read_siginfo s si_bytes = s\<lparr>dbg_out := dbg_out s @ [Reply_read_siginfo si_bytes]\<rparr>"

definition dbg_reply_write_siginfo :: "diversion \<Rightarrow> diversion" where
  "dbg_reply_write_siginfo s = s\<lparr>dbg_out := dbg_out s @ [Reply_write_siginfo]\<rparr>"

definition dbg_notify_stop :: "diversion \<Rightarrow> int \<Rightarrow> int \<Rightarrow> int \<Rightarrow> diversion" where
  "dbg_notify_stop s pid tid sig = s\<lparr>dbg_out := dbg_out s @ [Notify_stop pid tid sig]\<rparr>"

text \<open>The ten breakpoint and watchpoint cases that share one body in the switch.\<close>

definition is_breakpoint_request :: "DbgRequestType \<Rightarrow> bool" where
  "is_breakpoint_request ty =
     (ty \<in> set [DREQ_REMOVE_SW_BREAK, DREQ_REMOVE_HW_BREAK, DREQ_REMOVE_RD_WATCH,
                DREQ_REMOVE_WR_WATCH, DREQ_REMOVE_RDWR_WATCH, DREQ_SET_SW_BREAK,
                DREQ_SET_HW_BREAK, DREQ_SET_RD_WATCH, DREQ_SET_WR_WATCH,
                DREQ_SET_RDWR_WATCH])"

text \<open>
  \<^verbatim>\<open>process_debugger_requests\<close> reads requests until it returns. The requests still to
  come are a list; when it is used up the function waits in \<^verbatim>\<open>dbg_get_request\<close> and
  does not return (\<open>Blocked\<close>). \<open>Returned t req\<close> is the returned \<^verbatim>\<open>Task*\<close> and the
  request left in \<^verbatim>\<open>*req\<close>; \<open>Crashed\<close> is the dereference of a null \<^verbatim>\<open>t\<close>.
\<close>

datatype pdr_outcome = Blocked | Crashed | Returned "int option" dbg_request

fun process_debugger_requests ::
  "world \<Rightarrow> diversion \<Rightarrow> int option \<Rightarrow> dbg_request list
     \<Rightarrow> pdr_outcome \<times> diversion \<times> dbg_request list" where
  "process_debugger_requests w s t [] = (Blocked, s, [])"
| "process_debugger_requests w s t (req # rest) =
     (if dbg_is_resume_request req then
        (if diversion_dying s then (Returned None req, s, rest)
         else (Returned t req, s, rest))
      else if req_type req = DREQ_RESTART then (Returned None req, s, rest)
      else if req_type req = DREQ_READ_SIGINFO then
        process_debugger_requests w
          (dbg_reply_read_siginfo (diversion_ref s) (replicate (mem_len req) 0)) t rest
      else if req_type req = DREQ_SET_QUERY_THREAD then
        (case t of
           None \<Rightarrow> (Crashed, s, rest)
         | Some cur \<Rightarrow>
             (case find_task s (target_tid req) of
                None \<Rightarrow>
                  process_debugger_requests w (dispatch_debugger_request w s t req) t rest
              | Some next_task \<Rightarrow>
                  process_debugger_requests w
                    (dispatch_debugger_request w s (Some next_task) req)
                    (Some next_task) rest))
      else if req_type req = DREQ_WRITE_SIGINFO then
        process_debugger_requests w (dbg_reply_write_siginfo (diversion_unref s)) t rest
      else if is_breakpoint_request (req_type req) \<and> diversion_dying s then
        (Returned None req, s, rest)
      else process_debugger_requests w (dispatch_debugger_request w s t req) t rest)"

datatype divert_error = Assertion_failed | Fatal | Null_deref

definition SIGTRAP :: int where "SIGTRAP = 5"

definition advance :: "world \<Rightarrow> Task \<Rightarrow> dbg_request \<Rightarrow> divert_error + (bool \<times> Task)" where
  "advance w t req =
     (if child_sig t \<noteq> 0 then Inl Assertion_failed
      else if req_type req \<noteq> DREQ_CONTINUE \<and> req_type req \<noteq> DREQ_STEP then Inl Fatal
      else
        (let t = (if req_type req = DREQ_CONTINUE then cont_sysemu w t
                  else cont_sysemu_singlestep w t)
         in if pending_sig t \<noteq> 0 then Inr (False, t)
            else Inr (True, process_syscall (kernel_of w) t (original_syscallno (regs t)))))"

text \<open>The body of \<^verbatim>\<open>if (!advance(t, *req))\<close> in \<^verbatim>\<open>divert\<close>.\<close>

definition notify_stop_of :: "diversion \<Rightarrow> Task \<Rightarrow> diversion" where
  "notify_stop_of s t =
     (let sig = pending_sig t;
          sig = (if SIGTRAP \<noteq> sig \<and> breakpoint_user_at_ip t then SIGTRAP else sig)
      in dbg_notify_stop s (tgid t) (rec_tid t) sig)"

text \<open>
  The loop of \<^verbatim>\<open>divert\<close> and what follows it. \<open>Divert_blocked\<close>: the debugger sent
  nothing more, \<^verbatim>\<open>divert\<close> has not returned. \<open>Divert_failed\<close>: an assertion, a
  \<^verbatim>\<open>FATAL()\<close> or a null dereference stopped the tracer. \<open>Divert_ended\<close>:
  \<^verbatim>\<open>divert\<close> returned, with the session as it was before the global was reset.
\<close>

datatype divert_result =
    Divert_blocked diversion
  | Divert_failed divert_error
  | Divert_ended diversion

lemma process_debugger_requests_consumes:
  "process_debugger_requests w s t reqs = (Returned r q, s', rest) \<Longrightarrow>
   length rest < length reqs"
  by (induction w s t reqs rule: process_debugger_requests.induct)
     (fastforce split: if_splits option.splits)+

function divert_loop ::
  "world \<Rightarrow> diversion \<Rightarrow> int option \<Rightarrow> dbg_request list \<Rightarrow> divert_result" where
  "divert_loop w s t reqs =
     (case process_debugger_requests w s t reqs of
        (Blocked, s', rest) \<Rightarrow> Divert_blocked s'
      | (Crashed, s', rest) \<Rightarrow> Divert_failed Null_deref
      | (Returned None req, s', rest) \<Rightarrow>
          (if \<not> diversion_dying s' then Divert_failed Assertion_failed
           else Divert_ended (kill_all_tasks s'))
      | (Returned (Some tid) req, s', rest) \<Rightarrow>
          (case tasks s' tid of
             None \<Rightarrow> Divert_failed Null_deref
           | Some tk \<Rightarrow>
               (case advance w tk req of
                  Inl err \<Rightarrow> Divert_failed err
                | Inr (made_syscall, tk') \<Rightarrow>
                    (let s' = s'\<lparr>tasks := (tasks s')(tid \<mapsto> tk')\<rparr>;
                         s' = (if \<not> made_syscall then notify_stop_of s' tk' else s')
                     in divert_loop w s' (Some tid) rest))))"
  by pat_completeness auto
termination
  apply (relation "measure (\<lambda>(w, s, t, reqs). length reqs)")
   apply simp
  apply (auto dest: process_debugger_requests_consumes [OF sym])
  done

declare divert_loop.simps [simp del]

text \<open>\<^verbatim>\<open>divert\<close>, from the clone that \<^verbatim>\<open>replay.clone_diversion()\<close> hands over.\<close>

definition divert :: "world \<Rightarrow> diversion \<Rightarrow> int \<Rightarrow> dbg_request list \<Rightarrow> divert_result" where
  "divert w replay_clone task reqs =
     divert_loop w replay_clone (find_task replay_clone task) reqs"

section \<open>The preload shim (syscall_buffer.c)\<close>

subsection \<open>Data\<close>

text \<open>
  The shim is built for i386: addresses, \<^verbatim>\<open>size_t\<close> and \<^verbatim>\<open>long\<close> are 32-bit words,
  and pointer arithmetic wraps around.
\<close>

type_synonym addr = "32 word"

text \<open>The fields of \<^verbatim>\<open>struct perf_event_attr\<close> and \<^verbatim>\<open>struct f_owner_ex\<close> that the shim sets.\<close>

record perf_event_attr =
  attr_size :: int
  attr_type :: int
  attr_config :: int
  attr_disabled :: int
  attr_sample_period :: int

record f_owner_ex =
  own_type :: int
  own_pid :: int

text \<open>
  The entries of the array \<^verbatim>\<open>filter[]\<close> in \<^verbatim>\<open>install_syscall_filter\<close>, one
  constructor for each macro of \<^verbatim>\<open>seccomp-bpf.h\<close> that the array uses.
\<close>

datatype filter_rule =
    ALLOW_SYSCALLS_FROM_CALLSITE addr
  | EXAMINE_SYSCALL
  | ALLOW_SYSCALL int
  | TRACE_PROCESS

text \<open>
  Arguments of a syscall: numbers, addresses, and for a pointer to a structure the shim
  filled in, the structure. \<open>Local\<close> is a pointer to the named local variable, whose
  contents are not modelled; \<open>Msg_fd\<close> is the prepared \<^verbatim>\<open>msghdr\<close> carrying a file
  descriptor; \<open>Text\<close> is the format string of a log message.
\<close>

datatype sysarg =
    Num int
  | Ptr addr
  | Attr_ptr perf_event_attr
  | Owner_ptr f_owner_ex
  | Prog_ptr "filter_rule list"
  | Msg_fd int
  | Text string
  | Local string

text \<open>
  The memory the ring protocol writes: the fields of the record at an address, the two
  header fields, the lock and \<^verbatim>\<open>errno\<close>. A \<open>Store\<close> event is one assignment of the
  source, with the value stored; \<open>trace\<close> keeps the syscalls and stores of a thread in
  program order.
\<close>

datatype loc =
    Rec_ret addr
  | Rec_syscallno addr
  | Rec_desched addr
  | Rec_size addr
  | Hdr_num_rec_bytes
  | Hdr_abort_commit
  | Buffer_locked
  | Errno

datatype event =
    Traced int "sysarg list"
  | Untraced int "sysarg list"
  | Store loc int
  | Memcpy addr addr nat

text \<open>
  \<^verbatim>\<open>struct syscallbuf_hdr\<close> and \<^verbatim>\<open>struct syscallbuf_record\<close> are declared in
  \<^verbatim>\<open>syscall_buffer.h\<close>, which is not at hand: the records hold the fields that
  syscall_buffer.c reads and writes, a field holding the value assigned to it.
\<close>

record syscallbuf_hdr =
  num_rec_bytes :: "32 word"
  abort_commit :: int

record syscallbuf_record =
  rec_ret :: int
  rec_syscallno :: int
  rec_desched :: int
  rec_size :: "32 word"

text \<open>
  The thread's state: the file's static and thread-local variables, the header and the
  records of the ring that \<open>buffer\<close> points to, \<^verbatim>\<open>errno\<close>, and the trace.
  \<open>atfork_child_drop_buffer\<close> holds once \<^verbatim>\<open>pthread_atfork(NULL, NULL, drop_buffer)\<close>
  has run.
\<close>

record shim =
  is_seccomp_bpf_installed :: int
  atfork_child_drop_buffer :: bool
  buffer :: addr
  buffer_locked :: int
  desched_counter_fd :: int
  hdr :: syscallbuf_hdr
  recs :: "addr \<Rightarrow> syscallbuf_record"
  errno :: int
  trace :: "event list"

text \<open>
  What syscall_buffer.c uses and does not define, taken as parameters: the sizes and
  \<^verbatim>\<open>stored_record_size\<close> of \<^verbatim>\<open>syscall_buffer.h\<close>, the number of the
  \<^verbatim>\<open>RRCALL_init_syscall_buffer\<close> syscall, the address of the label
  \<^verbatim>\<open>_untraced_syscall_entry_point_ip\<close>, the value each syscall returns to the shim
  (for a traced one, what libc's \<^verbatim>\<open>syscall()\<close> returns), the error number that libc's
  \<^verbatim>\<open>syscall()\<close> stores in \<^verbatim>\<open>errno\<close> when a traced syscall fails (\<open>None\<close> when
  it leaves \<^verbatim>\<open>errno\<close> alone), and the header as rr initialises it when it maps the
  buffer.
\<close>

record shim_env =
  sizeof_hdr :: "32 word"
  sizeof_record :: "32 word"
  SYSCALLBUF_BUFFER_SIZE :: "32 word"
  stored_record_size :: "32 word \<Rightarrow> 32 word"
  RRCALL_init_syscall_buffer :: int
  sizeof_perf_event_attr :: int
  untraced_syscall_entry_point_ip :: addr
  syscall_ret :: "event \<Rightarrow> int"
  syscall_errno :: "event \<Rightarrow> int option"
  rr_initial_hdr :: syscallbuf_hdr

text \<open>The anonymous enum before \<^verbatim>\<open>prep_syscall\<close>.\<close>

datatype desched_mode = WILL_ARM_DESCHED_EVENT | DISARMED_DESCHED_EVENT | NO_DESCHED

text \<open>Constants of the Linux headers (i386).\<close>

definition PR_SET_NO_NEW_PRIVS :: int where "PR_SET_NO_NEW_PRIVS = 38"
definition PR_SET_SECCOMP :: int where "PR_SET_SECCOMP = 22"
definition SECCOMP_MODE_FILTER :: int where "SECCOMP_MODE_FILTER = 2"
definition PERF_TYPE_SOFTWARE :: int where "PERF_TYPE_SOFTWARE = 1"
definition PERF_COUNT_SW_CONTEXT_SWITCHES :: int where "PERF_COUNT_SW_CONTEXT_SWITCHES = 3"
definition F_SETFL :: int where "F_SETFL = 4"
definition F_SETSIG :: int where "F_SETSIG = 10"
definition F_SETOWN_EX :: int where "F_SETOWN_EX = 15"
definition F_OWNER_TID :: int where "F_OWNER_TID = 0"
definition O_ASYNC :: int where "O_ASYNC = 8192"
definition SIGIO :: int where "SIGIO = 29"
definition SIGABRT :: int where "SIGABRT = 6"
definition EHWPOISON :: int where "EHWPOISON = 133"
definition STDERR_FILENO :: int where "STDERR_FILENO = 2"
definition SIG_BLOCK :: int where "SIG_BLOCK = 0"
definition SIG_SETMASK :: int where "SIG_SETMASK = 2"
definition sizeof_timespec :: "32 word" where "sizeof_timespec = 8"
definition sizeof_timeval :: "32 word" where "sizeof_timeval = 8"
definition sizeof_timezone :: "32 word" where "sizeof_timezone = 8"

subsection \<open>Operations\<close>

text \<open>
  A function that can end the process (\<^verbatim>\<open>fatal\<close> calls \<^verbatim>\<open>exit_group(1)\<close>) returns
  \<open>Inl\<close> with the state at the exit, or \<open>Inr\<close> with its value and the new state.
\<close>

type_synonym 'a result = "shim + 'a \<times> shim"

definition buffer_last :: "shim_env \<Rightarrow> shim \<Rightarrow> addr" where
  "buffer_last e s = buffer s + sizeof_hdr e + num_rec_bytes (hdr s)"

definition buffer_end :: "shim_env \<Rightarrow> shim \<Rightarrow> addr" where
  "buffer_end e s = buffer s + SYSCALLBUF_BUFFER_SIZE e"

text \<open>
  A syscall through libc's \<^verbatim>\<open>syscall()\<close>, which the filter sends to the tracer. When
  the call fails libc stores the error number in \<^verbatim>\<open>errno\<close>; that store is libc's, not
  an assignment of the file, and is no \<open>Store\<close> event of the trace.
\<close>

definition traced :: "shim_env \<Rightarrow> int \<Rightarrow> sysarg list \<Rightarrow> shim \<Rightarrow> int \<times> shim" where
  "traced e no as s =
     (let s = s\<lparr>trace := trace s @ [Traced no as]\<rparr>;
          s = (case syscall_errno e (Traced no as) of
                 None \<Rightarrow> s
               | Some err \<Rightarrow> s\<lparr>errno := err\<rparr>)
      in (syscall_ret e (Traced no as), s))"

text \<open>A syscall through \<^verbatim>\<open>_untraced_syscall_entry_point\<close>.\<close>

definition untraced_syscall :: "shim_env \<Rightarrow> int \<Rightarrow> sysarg list \<Rightarrow> shim \<Rightarrow> int \<times> shim" where
  "untraced_syscall e no as s =
     (syscall_ret e (Untraced no as), s\<lparr>trace := trace s @ [Untraced no as]\<rparr>)"

definition store :: "loc \<Rightarrow> int \<Rightarrow> shim \<Rightarrow> shim" where
  "store l v s = s\<lparr>trace := trace s @ [Store l v]\<rparr>"

definition traced__exit :: "shim_env \<Rightarrow> int \<Rightarrow> shim \<Rightarrow> shim" where
  "traced__exit e status s = snd (traced e SYS_exit_group [Num status] s)"

definition traced_fcntl :: "shim_env \<Rightarrow> int \<Rightarrow> int \<Rightarrow> sysarg \<Rightarrow> shim \<Rightarrow> int \<times> shim" where
  "traced_fcntl e fd cmd arg s = traced e SYS_fcntl64 [Num fd, Num cmd, arg] s"

definition traced_getpid :: "shim_env \<Rightarrow> shim \<Rightarrow> int \<times> shim" where
  "traced_getpid e s = traced e SYS_getpid [] s"

definition traced_gettid :: "shim_env \<Rightarrow> shim \<Rightarrow> int \<times> shim" where
  "traced_gettid e s = traced e SYS_gettid [] s"

definition traced_perf_event_open ::
  "shim_env \<Rightarrow> perf_event_attr \<Rightarrow> int \<Rightarrow> int \<Rightarrow> int \<Rightarrow> int \<Rightarrow> shim \<Rightarrow> int \<times> shim" where
  "traced_perf_event_open e attr pid cpu group_fd flags s =
     traced e SYS_perf_event_open [Attr_ptr attr, Num pid, Num cpu, Num group_fd, Num flags] s"

text \<open>The source passes \<^verbatim>\<open>arg4\<close> twice and drops \<^verbatim>\<open>arg5\<close>.\<close>

definition traced_prctl ::
  "shim_env \<Rightarrow> int \<Rightarrow> sysarg \<Rightarrow> sysarg \<Rightarrow> sysarg \<Rightarrow> sysarg \<Rightarrow> shim \<Rightarrow> int \<times> shim" where
  "traced_prctl e option a2 a3 a4 a5 s =
     traced e SYS_prctl [Num option, a2, a3, a4, a4] s"

definition traced_raise :: "shim_env \<Rightarrow> int \<Rightarrow> shim \<Rightarrow> int \<times> shim" where
  "traced_raise e sig s =
     (let (pid, s) = traced_getpid e s in traced e SYS_kill [Num pid, Num sig] s)"

text \<open>The source drops \<^verbatim>\<open>how\<close>.\<close>

definition traced_sigprocmask :: "shim_env \<Rightarrow> int \<Rightarrow> sysarg \<Rightarrow> sysarg \<Rightarrow> shim \<Rightarrow> int \<times> shim" where
  "traced_sigprocmask e how set_ptr oldset s = traced e SYS_rt_sigprocmask [set_ptr, oldset] s"

definition traced_write :: "shim_env \<Rightarrow> int \<Rightarrow> sysarg \<Rightarrow> shim \<Rightarrow> int \<times> shim" where
  "traced_write e fd buf s = traced e SYS_write [Num fd, buf] s"

definition logmsg :: "shim_env \<Rightarrow> string \<Rightarrow> shim \<Rightarrow> shim" where
  "logmsg e msg s = snd (traced_write e STDERR_FILENO (Text msg) s)"

definition fatal :: "shim_env \<Rightarrow> string \<Rightarrow> shim \<Rightarrow> 'a result" where
  "fatal e msg s = Inl (traced__exit e 1 (logmsg e msg s))"

text \<open>The file's own \<^verbatim>\<open>assert\<close> macro: it logs and raises SIGABRT, then goes on.\<close>

definition shim_assert :: "shim_env \<Rightarrow> bool \<Rightarrow> string \<Rightarrow> shim \<Rightarrow> shim" where
  "shim_assert e cond msg s =
     (if \<not> cond then snd (traced_raise e SIGABRT (logmsg e msg s)) else s)"

definition get_untraced_syscall_entry_point :: "shim_env \<Rightarrow> addr" where
  "get_untraced_syscall_entry_point e = untraced_syscall_entry_point_ip e"

definition rrcall_init_syscall_buffer ::
  "shim_env \<Rightarrow> addr \<Rightarrow> sysarg \<Rightarrow> sysarg \<Rightarrow> sysarg \<Rightarrow> sysarg \<Rightarrow> shim \<Rightarrow> addr \<times> shim" where
  "rrcall_init_syscall_buffer e untraced_syscall_ip addr msg fdptr args_vec s =
     (let (r, s) = traced e (RRCALL_init_syscall_buffer e)
                     [Ptr untraced_syscall_ip, addr, msg, fdptr, args_vec] s
      in (word_of_int r, s))"


definition and_then :: "'a result \<Rightarrow> ('a \<Rightarrow> shim \<Rightarrow> 'b result) \<Rightarrow> 'b result" where
  "and_then r f = (case r of Inl x \<Rightarrow> Inl x | Inr (a, s) \<Rightarrow> f a s)"

subsection \<open>The seccomp filter\<close>

record seccomp_data =
  nr :: "32 word"
  instruction_pointer :: addr

datatype seccomp_action = SECCOMP_RET_ALLOW | SECCOMP_RET_TRACE

text \<open>
  Modelled from the spec: the macros \<^verbatim>\<open>ALLOW_SYSCALLS_FROM_CALLSITE\<close>,
  \<^verbatim>\<open>EXAMINE_SYSCALL\<close>, \<^verbatim>\<open>ALLOW_SYSCALL\<close> and \<^verbatim>\<open>TRACE_PROCESS\<close> are defined in
  \<^verbatim>\<open>seccomp-bpf.h\<close>, which is not at hand. The filter runs its entries in order over
  the syscall's data with an accumulator: the callsite entry loads the instruction
  pointer and allows the syscall when it equals the callsite; \<^verbatim>\<open>EXAMINE_SYSCALL\<close>
  loads the syscall number; \<^verbatim>\<open>ALLOW_SYSCALL\<close> allows the syscall when the
  accumulator equals its number; \<^verbatim>\<open>TRACE_PROCESS\<close> stops the syscall for the tracer.
\<close>

fun run_filter :: "filter_rule list \<Rightarrow> seccomp_data \<Rightarrow> 32 word \<Rightarrow> seccomp_action option" where
  "run_filter [] d acc = None"
| "run_filter (ALLOW_SYSCALLS_FROM_CALLSITE callsite # rules) d acc =
     (if instruction_pointer d = callsite then Some SECCOMP_RET_ALLOW
      else run_filter rules d (instruction_pointer d))"
| "run_filter (EXAMINE_SYSCALL # rules) d acc = run_filter rules d (nr d)"
| "run_filter (ALLOW_SYSCALL name # rules) d acc =
     (if acc = word_of_int name then Some SECCOMP_RET_ALLOW else run_filter rules d acc)"
| "run_filter (TRACE_PROCESS # rules) d acc = Some SECCOMP_RET_TRACE"

text \<open>The array \<^verbatim>\<open>filter[]\<close> of \<^verbatim>\<open>install_syscall_filter\<close>.\<close>

definition syscall_filter :: "addr \<Rightarrow> filter_rule list" where
  "syscall_filter protected_call_start =
     [ALLOW_SYSCALLS_FROM_CALLSITE protected_call_start,
      EXAMINE_SYSCALL,
      ALLOW_SYSCALL SYS_clone,
      ALLOW_SYSCALL SYS_fork,
      ALLOW_SYSCALL SYS_restart_syscall,
      TRACE_PROCESS]"

definition install_syscall_filter :: "shim_env \<Rightarrow> shim \<Rightarrow> unit result" where
  "install_syscall_filter e s =
     (let protected_call_start = get_untraced_syscall_entry_point e;
          prog = syscall_filter protected_call_start;
          s = logmsg e ''[INFO] Initializing syscall buffer: protected_call_start = %p'' s;
          (r, s) = traced_prctl e PR_SET_NO_NEW_PRIVS (Num 1) (Num 0) (Num 0) (Num 0) s
      in if r \<noteq> 0 then
           fatal e ''prctl(NO_NEW_PRIVS) failed, SECCOMP_FILTER is not available.'' s
         else
           (let (r, s) = traced_prctl e PR_SET_SECCOMP (Num SECCOMP_MODE_FILTER)
                           (Prog_ptr prog) (Num 0) (Num 0) s
            in if r \<noteq> 0 then
                 fatal e ''prctl(SECCOMP) failed, SECCOMP_FILTER is not available.'' s
               else Inr ((), s)))"

subsection \<open>Setting up the buffer\<close>

text \<open>The \<^verbatim>\<open>attr\<close> that \<^verbatim>\<open>open_desched_event_counter\<close> fills in after its \<^verbatim>\<open>memset\<close>.\<close>

definition desched_attr :: "shim_env \<Rightarrow> int \<Rightarrow> perf_event_attr" where
  "desched_attr e nr_descheds =
     (let attr = \<lparr>attr_size = 0, attr_type = 0, attr_config = 0, attr_disabled = 0,
                   attr_sample_period = 0\<rparr>;
          attr = attr\<lparr>attr_size := sizeof_perf_event_attr e\<rparr>;
          attr = attr\<lparr>attr_type := PERF_TYPE_SOFTWARE\<rparr>;
          attr = attr\<lparr>attr_config := PERF_COUNT_SW_CONTEXT_SWITCHES\<rparr>;
          attr = attr\<lparr>attr_disabled := 1\<rparr>
      in attr\<lparr>attr_sample_period := nr_descheds\<rparr>)"

definition open_desched_event_counter :: "shim_env \<Rightarrow> int \<Rightarrow> shim \<Rightarrow> int result" where
  "open_desched_event_counter e nr_descheds s =
     (let attr = desched_attr e nr_descheds;
          (fd, s) = traced_perf_event_open e attr 0 (- 1) (- 1) 0 s
      in if 0 > fd then fatal e ''Failed to perf_event_open(cs, period=%u)'' s
         else
           (let (r, s) = traced_fcntl e fd F_SETFL (Num O_ASYNC) s
            in if r \<noteq> 0 then fatal e ''Failed to fcntl(O_ASYNC) the desched counter'' s
               else
                 (let (tid, s) = traced_gettid e s;
                      own = \<lparr>own_type = F_OWNER_TID, own_pid = tid\<rparr>;
                      (r, s) = traced_fcntl e fd F_SETOWN_EX (Owner_ptr own) s
                  in if r \<noteq> 0 then
                       fatal e ''Failed to fcntl(SETOWN_EX) the desched counter to this'' s
                     else
                       (let (r, s) = traced_fcntl e fd F_SETSIG (Num SIGIO) s
                        in if r \<noteq> 0 then
                             fatal e ''Failed to fcntl(SETSIG, SIGIO) the desched counter'' s
                           else Inr (fd, s)))))"

definition set_up_buffer :: "shim_env \<Rightarrow> shim \<Rightarrow> unit result" where
  "set_up_buffer e s =
     (let s = shim_assert e (buffer s = 0) ''Assertion !buffer failed.'' s
      in and_then (open_desched_event_counter e 1 s) (\<lambda>fd s.
           (let s = s\<lparr>desched_counter_fd := fd\<rparr>;
                (tid, s) = traced_gettid e s;
                (r, s) = traced_sigprocmask e SIG_BLOCK (Local ''mask'') (Local ''oldmask'') s;
                (b, s) = rrcall_init_syscall_buffer e (get_untraced_syscall_entry_point e)
                           (Local ''addr'') (Msg_fd (desched_counter_fd s))
                           (Local ''cmsg_fdptr'') (Local ''args_vec'') s;
                s = s\<lparr>buffer := b, hdr := rr_initial_hdr e\<rparr>;
                (r, s) = traced_sigprocmask e SIG_SETMASK (Local ''oldmask'') (Num 0) s
            in Inr ((), s))))"

definition drop_buffer :: "shim \<Rightarrow> shim" where
  "drop_buffer s = s\<lparr>buffer := 0, buffer_locked := 0\<rparr>"

definition init :: "shim_env \<Rightarrow> shim \<Rightarrow> unit result" where
  "init e s =
     and_then
       (if is_seccomp_bpf_installed s = 0 then
          and_then (install_syscall_filter e s) (\<lambda>u s.
            Inr ((), s\<lparr>is_seccomp_bpf_installed := 1, atfork_child_drop_buffer := True\<rparr>))
        else Inr ((), s))
       (\<lambda>u s. set_up_buffer e s)"

subsection \<open>Reserving and committing a record\<close>

definition prep_syscall :: "shim_env \<Rightarrow> desched_mode \<Rightarrow> shim \<Rightarrow> addr result" where
  "prep_syscall e notify_desched s =
     and_then (if buffer s = 0 then init e s else Inr ((), s)) (\<lambda>u s.
       if buffer_locked s \<noteq> 0 then Inr (0, s)
       else
         (let s = store Buffer_locked 1 (s\<lparr>buffer_locked := 1\<rparr>)
          in Inr (buffer_last e s + sizeof_record e, s)))"

definition can_buffer_syscall :: "shim_env \<Rightarrow> addr \<Rightarrow> shim \<Rightarrow> int \<times> shim" where
  "can_buffer_syscall e record_end s =
     (let record_start = buffer_last e s;
          stored_end = record_start + stored_record_size e (record_end - record_start)
      in if stored_end < record_start + sizeof_record e then (0, s)
         else if stored_end > buffer_end e s - sizeof_record e then
           (0, store Buffer_locked 0 (s\<lparr>buffer_locked := 0\<rparr>))
         else (1, s))"

definition update_errno_ret :: "int \<Rightarrow> shim \<Rightarrow> int \<times> shim" where
  "update_errno_ret ret s =
     (if 0 > ret \<and> ret \<ge> - EHWPOISON then
        (- 1, store Errno (- ret) (s\<lparr>errno := - ret\<rparr>))
      else (ret, s))"

text \<open>An assignment to a field of the record at \<open>a\<close>.\<close>

definition write_rec ::
  "addr \<Rightarrow> (syscallbuf_record \<Rightarrow> syscallbuf_record) \<Rightarrow> shim \<Rightarrow> shim" where
  "write_rec a f s = s\<lparr>recs := (recs s)(a := f (recs s a))\<rparr>"

definition commit_syscall ::
  "shim_env \<Rightarrow> int \<Rightarrow> addr \<Rightarrow> int \<Rightarrow> desched_mode \<Rightarrow> shim \<Rightarrow> int \<times> shim" where
  "commit_syscall e syscallno record_end ret disarmed_desched s =
     (let record_start = buffer_last e s;
          s = (if abort_commit (hdr s) \<noteq> 0 then
                 store Hdr_abort_commit 0 (s\<lparr>hdr := (hdr s)\<lparr>abort_commit := 0\<rparr>\<rparr>)
               else
                 (let s = store (Rec_ret record_start) ret
                            (write_rec record_start (\<lambda>r. r\<lparr>rec_ret := ret\<rparr>) s);
                      s = store (Rec_syscallno record_start) syscallno
                            (write_rec record_start (\<lambda>r. r\<lparr>rec_syscallno := syscallno\<rparr>) s);
                      d = (if NO_DESCHED \<noteq> disarmed_desched then 1 else 0);
                      s = store (Rec_desched record_start) d
                            (write_rec record_start (\<lambda>r. r\<lparr>rec_desched := d\<rparr>) s);
                      sz = record_end - record_start;
                      s = store (Rec_size record_start) (uint sz)
                            (write_rec record_start (\<lambda>r. r\<lparr>rec_size := sz\<rparr>) s);
                      n = num_rec_bytes (hdr s)
                            + stored_record_size e (rec_size (recs s record_start))
                  in store Hdr_num_rec_bytes (uint n)
                       (s\<lparr>hdr := (hdr s)\<lparr>num_rec_bytes := n\<rparr>\<rparr>)));
          s = store Buffer_locked 0 (s\<lparr>buffer_locked := 0\<rparr>)
      in update_errno_ret ret s)"

subsection \<open>The wrappers\<close>

definition untraced_syscall2 ::
  "shim_env \<Rightarrow> int \<Rightarrow> sysarg \<Rightarrow> sysarg \<Rightarrow> shim \<Rightarrow> int \<times> shim" where
  "untraced_syscall2 e no a0 a1 s = untraced_syscall e no [a0, a1, Num 0, Num 0, Num 0] s"

text \<open>The bytes of out-parameters are not modelled: a copy is an event of the trace.\<close>

definition memcpy :: "addr \<Rightarrow> addr \<Rightarrow> 32 word \<Rightarrow> shim \<Rightarrow> shim" where
  "memcpy dst src n s = s\<lparr>trace := trace s @ [Memcpy dst src (unat n)]\<rparr>"

definition clock_gettime :: "shim_env \<Rightarrow> int \<Rightarrow> addr \<Rightarrow> shim \<Rightarrow> int result" where
  "clock_gettime e clk_id tp s =
     and_then (prep_syscall e NO_DESCHED s) (\<lambda>ptr s.
       (let tp2 = (if tp \<noteq> 0 then ptr else 0);
            ptr = (if tp \<noteq> 0 then ptr + sizeof_timespec else ptr);
            (ok, s) = can_buffer_syscall e ptr s
        in if ok = 0 then Inr (traced e SYS_clock_gettime [Num clk_id, Ptr tp] s)
           else
             (let (ret, s) = untraced_syscall2 e SYS_clock_gettime (Num clk_id) (Ptr tp2) s;
                  s = (if tp \<noteq> 0 then memcpy tp tp2 sizeof_timespec s else s)
              in Inr (commit_syscall e SYS_clock_gettime ptr ret NO_DESCHED s))))"

definition gettimeofday :: "shim_env \<Rightarrow> addr \<Rightarrow> addr \<Rightarrow> shim \<Rightarrow> int result" where
  "gettimeofday e tp tzp s =
     and_then (prep_syscall e NO_DESCHED s) (\<lambda>ptr s.
       (let tp2 = (if tp \<noteq> 0 then ptr else 0);
            ptr = (if tp \<noteq> 0 then ptr + sizeof_timeval else ptr);
            tzp2 = (if tzp \<noteq> 0 then ptr else 0);
            ptr = (if tzp \<noteq> 0 then ptr + sizeof_timezone else ptr);
            (ok, s) = can_buffer_syscall e ptr s
        in if ok = 0 then Inr (traced e SYS_gettimeofday [Ptr tp, Ptr tzp] s)
           else
             (let (ret, s) = untraced_syscall2 e SYS_gettimeofday (Ptr tp2) (Ptr tzp2) s;
                  s = (if tp \<noteq> 0 then memcpy tp tp2 sizeof_timeval s else s);
                  s = (if tzp \<noteq> 0 then memcpy tzp tzp2 sizeof_timezone s else s)
              in Inr (commit_syscall e SYS_gettimeofday ptr ret NO_DESCHED s))))"

section \<open>Notions of the claims and concrete inputs\<close>

text \<open>
  The reading of "a success return value" in the Linux syscall convention: the result
  register holds an error exactly when it lies in \<open>[-4095, -1]\<close>.
\<close>

definition is_success_result :: "int \<Rightarrow> bool" where
  "is_success_result r = (\<not> (- 4095 \<le> r \<and> r < 0))"




text \<open>
  "Leaving \<^verbatim>\<open>num_rec_bytes\<close> and the ring contents unchanged": the buffer, its
  header, its records and its lock are the same in both states.
\<close>

definition ring_unchanged :: "shim \<Rightarrow> shim \<Rightarrow> bool" where
  "ring_unchanged s s' =
     (buffer s' = buffer s \<and> hdr s' = hdr s \<and> recs s' = recs s
      \<and> buffer_locked s' = buffer_locked s)"

text \<open>
  The bytes a wrapper asks for between \<^verbatim>\<open>buffer_last()\<close> and the end pointer it hands
  to \<^verbatim>\<open>can_buffer_syscall\<close>, when \<^verbatim>\<open>prep_syscall\<close> took the lock: the record header
  and the out-parameters that are not null.
\<close>

definition clock_gettime_len :: "shim_env \<Rightarrow> addr \<Rightarrow> 32 word" where
  "clock_gettime_len e tp = sizeof_record e + (if tp \<noteq> 0 then sizeof_timespec else 0)"

definition gettimeofday_len :: "shim_env \<Rightarrow> addr \<Rightarrow> addr \<Rightarrow> 32 word" where
  "gettimeofday_len e tp tzp =
     sizeof_record e + (if tp \<noteq> 0 then sizeof_timeval else 0)
       + (if tzp \<noteq> 0 then sizeof_timezone else 0)"

text \<open>
  A record of \<open>n\<close> bytes at \<^verbatim>\<open>buffer_last()\<close> is well placed when it holds at least
  the record header, its stored size is not smaller than \<open>n\<close>, and the stored record
  does not wrap around the 32-bit address space.
\<close>

definition record_well_placed :: "shim_env \<Rightarrow> shim \<Rightarrow> 32 word \<Rightarrow> bool" where
  "record_well_placed e s n =
     (sizeof_record e \<le> n \<and> n \<le> stored_record_size e n
      \<and> unat (buffer_last e s) + unat (stored_record_size e n) < 2 ^ 32)"

text \<open>
  "The ring cannot fit the record": the stored record of \<open>n\<close> bytes would end beyond
  \<^verbatim>\<open>buffer_end()\<close> minus the size of a record header.
\<close>

definition ring_cannot_fit :: "shim_env \<Rightarrow> shim \<Rightarrow> 32 word \<Rightarrow> bool" where
  "ring_cannot_fit e s n =
     (buffer_last e s + stored_record_size e n > buffer_end e s - sizeof_record e)"

text \<open>A task stopped at the entry of \<^verbatim>\<open>kill\<close>, the result register holding \<open>-ENOSYS\<close>.\<close>

definition task_at_kill :: Task where
  "task_at_kill =
     \<lparr>regs = \<lparr>syscall_result = - 38, original_syscallno = SYS_kill,
               arg1 = 4242, arg2 = 9, arg3 = 0, arg4 = 0, arg5 = 0, arg6 = 0\<rparr>,
      is_desched_event_syscall = False, emulated_syscalls_finished = 0,
      remote_syscalls = [], pending_sig = 0, child_sig = 0, tgid = 100, rec_tid = 100,
      breakpoint_user_at_ip = False\<rparr>"

text \<open>A task stopped at the entry of the \<^verbatim>\<open>PERF_EVENT_IOC_ENABLE\<close> ioctl of its desched counter.\<close>

definition task_at_desched_ioctl :: Task where
  "task_at_desched_ioctl =
     \<lparr>regs = \<lparr>syscall_result = - 38, original_syscallno = SYS_ioctl,
               arg1 = 7, arg2 = 9216, arg3 = 0, arg4 = 0, arg5 = 0, arg6 = 0\<rparr>,
      is_desched_event_syscall = True, emulated_syscalls_finished = 0,
      remote_syscalls = [], pending_sig = 0, child_sig = 0, tgid = 100, rec_tid = 100,
      breakpoint_user_at_ip = False\<rparr>"

text \<open>
  A world in which syscalls return 0, a resumed tracee stops at once where it is, and
  the replayer's request handler leaves the session alone; a diversion of one task.
\<close>

definition world0 :: world where
  "world0 =
     \<lparr>kernel_of = (\<lambda>no as. 0), cont_sysemu = (\<lambda>t. t), cont_sysemu_singlestep = (\<lambda>t. t),
      dispatch_debugger_request = (\<lambda>s t r. s)\<rparr>"

definition session0 :: diversion where
  "session0 = \<lparr>tasks = [100 \<mapsto> task_at_kill], diversion_refcount = 0, dbg_out = []\<rparr>"

definition request :: "DbgRequestType \<Rightarrow> dbg_request" where
  "request ty = \<lparr>req_type = ty, target_tid = 100, mem_len = 2\<rparr>"

text \<open>
  A kernel that opens the desched counter as fd 7, runs in thread 4242, maps the buffer
  at \<open>0x70000000\<close> and returns 0 otherwise; a header of 4 bytes, records of 8 bytes, a
  ring of 1 MiB, and stored sizes rounded up to whole 32-bit words.
\<close>

definition kernel0 :: "event \<Rightarrow> int" where
  "kernel0 ev =
     (case ev of
        Traced no as \<Rightarrow>
          (if no = SYS_perf_event_open then 7
           else if no = SYS_gettid then 4242
           else if no = 442 then 1879048192
           else 0)
      | _ \<Rightarrow> 0)"

definition env0 :: shim_env where
  "env0 =
     \<lparr>sizeof_hdr = 4, sizeof_record = 8, SYSCALLBUF_BUFFER_SIZE = 1048576,
      stored_record_size = (\<lambda>n. (n + 3) AND NOT 3),
      RRCALL_init_syscall_buffer = 442, sizeof_perf_event_attr = 96,
      untraced_syscall_entry_point_ip = 3077570578,
      syscall_ret = kernel0, syscall_errno = (\<lambda>ev. None),
      rr_initial_hdr = \<lparr>num_rec_bytes = 0, abort_commit = 0\<rparr>\<rparr>"

text \<open>The same, but a traced \<^verbatim>\<open>gettimeofday\<close> fails with \<^verbatim>\<open>EFAULT\<close>.\<close>

definition env_efault :: shim_env where
  "env_efault =
     env0\<lparr>syscall_ret := (\<lambda>ev. if ev = Traced SYS_gettimeofday [Ptr 1, Ptr 0] then - 1
                                else kernel0 ev),
          syscall_errno := (\<lambda>ev. if ev = Traced SYS_gettimeofday [Ptr 1, Ptr 0] then Some 14
                                  else None)\<rparr>"

text \<open>A thread that has not called into the shim yet.\<close>

definition shim0 :: shim where
  "shim0 =
     \<lparr>is_seccomp_bpf_installed = 0, atfork_child_drop_buffer = False, buffer = 0,
      buffer_locked = 0, desched_counter_fd = 0,
      hdr = \<lparr>num_rec_bytes = 0, abort_commit = 0\<rparr>,
      recs = (\<lambda>a. \<lparr>rec_ret = 0, rec_syscallno = 0, rec_desched = 0, rec_size = 0\<rparr>),
      errno = 0, trace = []\<rparr>"

text \<open>A thread inside a wrapper (the ring is locked), 24 bytes of records in the ring.\<close>

definition shim_locked :: shim where
  "shim_locked =
     shim0\<lparr>is_seccomp_bpf_installed := 1, buffer := 1879048192, buffer_locked := 1,
           desched_counter_fd := 7, hdr := \<lparr>num_rec_bytes = 24, abort_commit = 0\<rparr>\<rparr>"

text \<open>The same thread after the tracer has set \<^verbatim>\<open>abort_commit\<close>.\<close>

definition shim_aborting :: shim where
  "shim_aborting = shim_locked\<lparr>hdr := \<lparr>num_rec_bytes = 24, abort_commit = 1\<rparr>\<rparr>"

text \<open>A thread outside the wrappers whose ring has room for 16 more bytes.\<close>

definition shim_nearly_full :: shim where
  "shim_nearly_full =
     shim0\<lparr>is_seccomp_bpf_installed := 1, buffer := 1879048192, buffer_locked := 0,
           desched_counter_fd := 7, hdr := \<lparr>num_rec_bytes = 1048556, abort_commit = 0\<rparr>\<rparr>"

section \<open>Diversion: the claims\<close>

lemma blacklisted_not_ioctl: "SYS_ioctl \<notin> set blacklisted_syscalls"
  by (simp add: blacklisted_syscalls_def syscall_numbers)

text \<open>
  C1, as stated, fails at a task stopped at \<^verbatim>\<open>kill\<close>: the syscall is not executed,
  but the result register still holds \<open>-ENOSYS\<close> afterwards, which is not a success
  value.
\<close>

theorem C1_blacklisted_result_not_success:
  "\<not> (remote_syscalls (process_syscall (\<lambda>no as. 0) task_at_kill SYS_kill)
        = remote_syscalls task_at_kill
      \<and> is_success_result
          (syscall_result (regs (process_syscall (\<lambda>no as. 0) task_at_kill SYS_kill))))"
  by (simp add: process_syscall_def blacklisted_syscalls_def syscall_numbers
      task_at_kill_def is_success_result_def)

text \<open>
  C1, amended: at a syscall stop whose number is one of \<^verbatim>\<open>ipc\<close>, \<^verbatim>\<open>kill\<close>,
  \<^verbatim>\<open>rt_sigqueueinfo\<close>, \<^verbatim>\<open>rt_tgsigqueueinfo\<close>, \<^verbatim>\<open>tgkill\<close>, \<^verbatim>\<open>tkill\<close>,
  \<^verbatim>\<open>process_syscall\<close> returns without touching the task: the syscall is not executed
  against the kernel, and the registers, the result register among them, are left as
  they were at the stop.
\<close>

theorem C1_blacklisted_syscall_skipped:
  assumes "syscallno \<in> set blacklisted_syscalls"
  shows "process_syscall k t syscallno = t"
proof -
  from assms blacklisted_not_ioctl have "syscallno \<noteq> SYS_ioctl"
    by auto
  with assms show ?thesis
    by (simp add: process_syscall_def)
qed

theorem C1_blacklisted_syscall_skipped_witness:
  "SYS_tgkill \<in> set blacklisted_syscalls
   \<and> process_syscall (\<lambda>no as. 0) task_at_kill SYS_tgkill = task_at_kill"
proof -
  have h: "SYS_tgkill \<in> set blacklisted_syscalls"
    by (simp add: blacklisted_syscalls_def)
  from C1_blacklisted_syscall_skipped [OF h] h show ?thesis
    by simp
qed

text \<open>
  C4: at an \<^verbatim>\<open>ioctl\<close> stop that is a desched-event ioctl, nothing is executed against
  the kernel, the result register is set to 0 (every other register is kept), and the
  emulated syscall is finished once.
\<close>

theorem C4_desched_ioctl_emulated:
  assumes "is_desched_event_syscall t"
  shows "remote_syscalls (process_syscall k t SYS_ioctl) = remote_syscalls t
       \<and> syscall_result (regs (process_syscall k t SYS_ioctl)) = 0
       \<and> process_syscall k t SYS_ioctl =
           t\<lparr>regs := (regs t)\<lparr>syscall_result := 0\<rparr>,
             emulated_syscalls_finished := Suc (emulated_syscalls_finished t)\<rparr>"
  using assms
  by (simp add: process_syscall_def finish_emulated_syscall_with_ret_def
      finish_emulated_syscall_def Let_def)

theorem C4_desched_ioctl_emulated_witness:
  "is_desched_event_syscall task_at_desched_ioctl
   \<and> remote_syscalls (process_syscall (\<lambda>no as. 1) task_at_desched_ioctl SYS_ioctl) = []
   \<and> syscall_result (regs (process_syscall (\<lambda>no as. 1) task_at_desched_ioctl SYS_ioctl)) = 0"
proof -
  have h: "is_desched_event_syscall task_at_desched_ioctl"
    by (simp add: task_at_desched_ioctl_def)
  from C4_desched_ioctl_emulated [OF h, of "\<lambda>no as. 1"] h show ?thesis
    by (simp add: task_at_desched_ioctl_def)
qed

subsection \<open>The end of a diversion\<close>












text \<open>
  A restart request returns null whatever the count is, and \<^verbatim>\<open>divert\<close> asserts
  \<^verbatim>\<open>diversion_dying()\<close> after its loop: a restart while a \<^verbatim>\<open>READ_SIGINFO\<close> is
  unanswered stops the tracer at the assertion, before the tasks are killed.
\<close>

lemma restart_at_live_count_trips_assertion:
  "divert world0 session0 100 [request DREQ_READ_SIGINFO, request DREQ_RESTART]
     = Divert_failed Assertion_failed"
  by (simp add: divert_def divert_loop.simps find_task_def session0_def world0_def
      request_def dbg_is_resume_request_def diversion_dying_def diversion_ref_def
      dbg_reply_read_siginfo_def)

section \<open>The preload shim: the claims\<close>

subsection \<open>Reading the state and the trace\<close>


lemma update_errno_ret_snd:
  "snd (update_errno_ret ret s) =
     (if - EHWPOISON \<le> ret \<and> ret < 0 then store Errno (- ret) (s\<lparr>errno := - ret\<rparr>) else s)"
  by (simp add: update_errno_ret_def)

lemma store_simps:
  "errno (store l v s) = errno s"
  "hdr (store l v s) = hdr s"
  "recs (store l v s) = recs s"
  "buffer (store l v s) = buffer s"
  "buffer_locked (store l v s) = buffer_locked s"
  "trace (store l v s) = trace s @ [Store l v]"
  by (simp_all add: store_def)

lemma write_rec_simps:
  "errno (write_rec a f s) = errno s"
  "hdr (write_rec a f s) = hdr s"
  "recs (write_rec a f s) = (recs s)(a := f (recs s a))"
  "buffer (write_rec a f s) = buffer s"
  "buffer_locked (write_rec a f s) = buffer_locked s"
  "trace (write_rec a f s) = trace s"
  by (simp_all add: write_rec_def)

lemma buffer_last_simps:
  "buffer_last e (store l v s) = buffer_last e s"
  "buffer_last e (write_rec a f s) = buffer_last e s"
  by (simp_all add: buffer_last_def store_simps write_rec_simps)

lemma traced_simps:
  "fst (traced e no as s) = syscall_ret e (Traced no as)"
  "trace (snd (traced e no as s)) = trace s @ [Traced no as]"
  "hdr (snd (traced e no as s)) = hdr s"
  "recs (snd (traced e no as s)) = recs s"
  "buffer (snd (traced e no as s)) = buffer s"
  "buffer_locked (snd (traced e no as s)) = buffer_locked s"
  "desched_counter_fd (snd (traced e no as s)) = desched_counter_fd s"
  by (simp_all add: traced_def Let_def split: option.splits)

lemma traced_ring_unchanged: "ring_unchanged s (snd (traced e no as s))"
  by (simp add: ring_unchanged_def traced_simps)

lemmas shim0_defs = env0_def kernel0_def shim0_def shim_locked_def shim_aborting_def
  shim_nearly_full_def

subsection \<open>The seccomp filter\<close>

lemma run_syscall_filter:
  "run_filter (syscall_filter ip) d acc =
     Some (if instruction_pointer d = ip \<or> nr d = word_of_int SYS_clone
              \<or> nr d = word_of_int SYS_fork \<or> nr d = word_of_int SYS_restart_syscall
           then SECCOMP_RET_ALLOW else SECCOMP_RET_TRACE)"
  by (simp add: syscall_filter_def)

lemma install_syscall_filter_Inr:
  assumes "install_syscall_filter e s = Inr (u, s')"
  shows "trace s' = trace s
           @ [Traced SYS_write [Num STDERR_FILENO,
                Text ''[INFO] Initializing syscall buffer: protected_call_start = %p''],
              Traced SYS_prctl [Num PR_SET_NO_NEW_PRIVS, Num 1, Num 0, Num 0, Num 0],
              Traced SYS_prctl [Num PR_SET_SECCOMP, Num SECCOMP_MODE_FILTER,
                Prog_ptr (syscall_filter (untraced_syscall_entry_point_ip e)), Num 0, Num 0]]"
  using assms
  by (auto simp: install_syscall_filter_def Let_def traced_prctl_def logmsg_def
      traced_write_def fatal_def get_untraced_syscall_entry_point_def case_prod_beta
      traced_simps split: if_splits)

text \<open>
  C2: when \<^verbatim>\<open>install_syscall_filter\<close> returns, the last syscall it made installed,
  with \<^verbatim>\<open>prctl(PR_SET_SECCOMP, SECCOMP_MODE_FILTER, ...)\<close>, the filter built around
  the untraced entry point, and that filter allows a syscall exactly when its
  instruction pointer is the entry point or its number is \<^verbatim>\<open>clone\<close>, \<^verbatim>\<open>fork\<close> or
  \<^verbatim>\<open>restart_syscall\<close>; every other syscall gets \<^verbatim>\<open>TRACE_PROCESS\<close>.
\<close>

theorem C2_seccomp_filter:
  assumes "install_syscall_filter e s = Inr (u, s')"
  shows "last (trace s') =
           Traced SYS_prctl [Num PR_SET_SECCOMP, Num SECCOMP_MODE_FILTER,
             Prog_ptr (syscall_filter (untraced_syscall_entry_point_ip e)), Num 0, Num 0]
       \<and> (\<forall>d acc. run_filter (syscall_filter (untraced_syscall_entry_point_ip e)) d acc =
             Some (if instruction_pointer d = untraced_syscall_entry_point_ip e
                      \<or> nr d = word_of_int SYS_clone \<or> nr d = word_of_int SYS_fork
                      \<or> nr d = word_of_int SYS_restart_syscall
                   then SECCOMP_RET_ALLOW else SECCOMP_RET_TRACE))"
  using install_syscall_filter_Inr [OF assms] run_syscall_filter
  by simp

theorem C2_seccomp_filter_witness:
  "\<exists>s'. install_syscall_filter env0 shim0 = Inr ((), s')
     \<and> last (trace s') =
         Traced SYS_prctl [Num PR_SET_SECCOMP, Num SECCOMP_MODE_FILTER,
           Prog_ptr (syscall_filter 3077570578), Num 0, Num 0]
     \<and> run_filter (syscall_filter 3077570578)
         \<lparr>nr = 4, instruction_pointer = 3077570578\<rparr> 0 = Some SECCOMP_RET_ALLOW
     \<and> run_filter (syscall_filter 3077570578)
         \<lparr>nr = 120, instruction_pointer = 134513000\<rparr> 0 = Some SECCOMP_RET_ALLOW
     \<and> run_filter (syscall_filter 3077570578)
         \<lparr>nr = 4, instruction_pointer = 134513000\<rparr> 0 = Some SECCOMP_RET_TRACE"
proof -
  have "\<exists>s'. install_syscall_filter env0 shim0 = Inr ((), s')"
    by (simp add: install_syscall_filter_def Let_def traced_prctl_def traced_def logmsg_def
        traced_write_def shim0_defs syscall_numbers)
  then obtain s' where h: "install_syscall_filter env0 shim0 = Inr ((), s')"
    by blast
  have ip: "untraced_syscall_entry_point_ip env0 = 3077570578"
    by (simp add: env0_def)
  from C2_seccomp_filter [OF h] have
    "last (trace s') =
       Traced SYS_prctl [Num PR_SET_SECCOMP, Num SECCOMP_MODE_FILTER,
         Prog_ptr (syscall_filter 3077570578), Num 0, Num 0]"
    and "run_filter (syscall_filter 3077570578)
           \<lparr>nr = 4, instruction_pointer = 3077570578\<rparr> 0 = Some SECCOMP_RET_ALLOW"
    and "run_filter (syscall_filter 3077570578)
           \<lparr>nr = 120, instruction_pointer = 134513000\<rparr> 0 = Some SECCOMP_RET_ALLOW"
    and "run_filter (syscall_filter 3077570578)
           \<lparr>nr = 4, instruction_pointer = 134513000\<rparr> 0 = Some SECCOMP_RET_TRACE"
    by (simp_all add: ip syscall_numbers)
  with h show ?thesis
    by blast
qed

subsection \<open>Committing a record\<close>

text \<open>
  C3: when \<^verbatim>\<open>abort_commit\<close> is set at \<^verbatim>\<open>commit_syscall\<close>, no field of any record is
  written, \<^verbatim>\<open>num_rec_bytes\<close> keeps its value, \<^verbatim>\<open>abort_commit\<close> is reset to 0 and the
  ring is unlocked: the only stores are those to \<^verbatim>\<open>abort_commit\<close>, to the lock and,
  for an error return, to \<^verbatim>\<open>errno\<close>.
\<close>

theorem C3_abort_commit_drops_record:
  assumes "abort_commit (hdr s) \<noteq> 0"
  shows "recs (snd (commit_syscall e syscallno record_end ret disarmed_desched s)) = recs s
       \<and> num_rec_bytes (hdr (snd (commit_syscall e syscallno record_end ret disarmed_desched s)))
           = num_rec_bytes (hdr s)
       \<and> abort_commit (hdr (snd (commit_syscall e syscallno record_end ret disarmed_desched s))) = 0
       \<and> buffer_locked (snd (commit_syscall e syscallno record_end ret disarmed_desched s)) = 0
       \<and> trace (snd (commit_syscall e syscallno record_end ret disarmed_desched s))
           = trace s @ [Store Hdr_abort_commit 0, Store Buffer_locked 0]
               @ (if - EHWPOISON \<le> ret \<and> ret < 0 then [Store Errno (- ret)] else [])"
  using assms
  by (simp add: commit_syscall_def Let_def update_errno_ret_snd store_simps)

theorem C3_abort_commit_drops_record_witness:
  "abort_commit (hdr shim_aborting) \<noteq> 0
   \<and> recs (snd (commit_syscall env0 SYS_clock_gettime 1879048236 0 NO_DESCHED shim_aborting))
       = recs shim_aborting
   \<and> num_rec_bytes
       (hdr (snd (commit_syscall env0 SYS_clock_gettime 1879048236 0 NO_DESCHED shim_aborting)))
       = 24
   \<and> abort_commit
       (hdr (snd (commit_syscall env0 SYS_clock_gettime 1879048236 0 NO_DESCHED shim_aborting)))
       = 0
   \<and> trace (snd (commit_syscall env0 SYS_clock_gettime 1879048236 0 NO_DESCHED shim_aborting))
       = [Store Hdr_abort_commit 0, Store Buffer_locked 0]"
proof -
  have h: "abort_commit (hdr shim_aborting) \<noteq> 0"
    by (simp add: shim0_defs)
  from C3_abort_commit_drops_record
         [OF h, of env0 SYS_clock_gettime 1879048236 0 NO_DESCHED] h
  show ?thesis
    by (simp add: shim0_defs EHWPOISON_def)
qed

text \<open>
  C8: when \<^verbatim>\<open>abort_commit\<close> is clear, \<^verbatim>\<open>commit_syscall\<close> stores, in this order, the
  record's \<^verbatim>\<open>ret\<close>, \<^verbatim>\<open>syscallno\<close>, \<^verbatim>\<open>desched\<close> and \<^verbatim>\<open>size\<close>, then
  \<^verbatim>\<open>num_rec_bytes\<close>, advanced by the stored size of the record, then the cleared lock;
  no store to the ring, its header or its lock follows (an error return then sets
  \<^verbatim>\<open>errno\<close>).
\<close>

theorem C8_commit_store_order:
  assumes "abort_commit (hdr s) = 0"
  shows "trace (snd (commit_syscall e syscallno record_end ret disarmed_desched s))
           = trace s
             @ [Store (Rec_ret (buffer_last e s)) ret,
                Store (Rec_syscallno (buffer_last e s)) syscallno,
                Store (Rec_desched (buffer_last e s))
                  (if NO_DESCHED \<noteq> disarmed_desched then 1 else 0),
                Store (Rec_size (buffer_last e s)) (uint (record_end - buffer_last e s)),
                Store Hdr_num_rec_bytes
                  (uint (num_rec_bytes (hdr s)
                         + stored_record_size e (record_end - buffer_last e s))),
                Store Buffer_locked 0]
             @ (if - EHWPOISON \<le> ret \<and> ret < 0 then [Store Errno (- ret)] else [])
       \<and> recs (snd (commit_syscall e syscallno record_end ret disarmed_desched s))
             (buffer_last e s)
           = \<lparr>rec_ret = ret, rec_syscallno = syscallno,
              rec_desched = (if NO_DESCHED \<noteq> disarmed_desched then 1 else 0),
              rec_size = record_end - buffer_last e s\<rparr>
       \<and> num_rec_bytes (hdr (snd (commit_syscall e syscallno record_end ret disarmed_desched s)))
           = num_rec_bytes (hdr s) + stored_record_size e (record_end - buffer_last e s)
       \<and> buffer_locked (snd (commit_syscall e syscallno record_end ret disarmed_desched s)) = 0"
  using assms
  by (simp add: commit_syscall_def Let_def update_errno_ret_snd store_simps write_rec_simps
      buffer_last_simps)

theorem C8_commit_store_order_witness:
  "abort_commit (hdr shim_locked) = 0
   \<and> trace (snd (commit_syscall env0 SYS_clock_gettime 1879048236 0 NO_DESCHED shim_locked))
       = [Store (Rec_ret 1879048220) 0,
          Store (Rec_syscallno 1879048220) 265,
          Store (Rec_desched 1879048220) 0,
          Store (Rec_size 1879048220) 16,
          Store Hdr_num_rec_bytes 40,
          Store Buffer_locked 0]"
proof -
  have h: "abort_commit (hdr shim_locked) = 0"
    by (simp add: shim0_defs)
  from C8_commit_store_order [OF h, of env0 SYS_clock_gettime 1879048236 0 NO_DESCHED] h
  show ?thesis
    by (simp add: shim0_defs buffer_last_def EHWPOISON_def SYS_clock_gettime_def)
qed



subsection \<open>The desched event counter\<close>

lemma open_desched_event_counter_Inr:
  assumes "open_desched_event_counter e n s = Inr (fd, s')"
  shows "fd = syscall_ret e (Traced SYS_perf_event_open
                [Attr_ptr (desched_attr e n), Num 0, Num (- 1), Num (- 1), Num 0])
       \<and> trace s' = trace s
           @ [Traced SYS_perf_event_open
                [Attr_ptr (desched_attr e n), Num 0, Num (- 1), Num (- 1), Num 0],
              Traced SYS_fcntl64 [Num fd, Num F_SETFL, Num O_ASYNC],
              Traced SYS_gettid [],
              Traced SYS_fcntl64 [Num fd, Num F_SETOWN_EX,
                Owner_ptr \<lparr>own_type = F_OWNER_TID,
                           own_pid = syscall_ret e (Traced SYS_gettid [])\<rparr>],
              Traced SYS_fcntl64 [Num fd, Num F_SETSIG, Num SIGIO]]"
  using assms
  by (auto simp: open_desched_event_counter_def Let_def traced_perf_event_open_def
      traced_fcntl_def traced_gettid_def fatal_def case_prod_beta traced_simps
      split: if_splits)

lemma set_up_buffer_Inr:
  assumes "set_up_buffer e s = Inr (u, s')" and "buffer s = 0"
  shows "\<exists>s1. open_desched_event_counter e 1 s = Inr (desched_counter_fd s', s1)
            \<and> (\<exists>rest. trace s' = trace s1 @ rest)"
  using assms
  by (auto simp: set_up_buffer_def shim_assert_def and_then_def Let_def traced_gettid_def
      traced_sigprocmask_def rrcall_init_syscall_buffer_def case_prod_beta traced_simps
      split: sum.splits)

text \<open>
  C5: when \<^verbatim>\<open>set_up_buffer\<close> returns, the thread's desched counter is the descriptor
  that \<^verbatim>\<open>perf_event_open\<close> returned for a software event counting
  \<^verbatim>\<open>PERF_COUNT_SW_CONTEXT_SWITCHES\<close> with sample period 1, created disabled, and the
  shim's first syscalls were that \<^verbatim>\<open>perf_event_open\<close>, then \<^verbatim>\<open>fcntl(F_SETFL, O_ASYNC)\<close>,
  \<^verbatim>\<open>gettid\<close>, \<^verbatim>\<open>fcntl(F_SETOWN_EX)\<close> with owner type \<^verbatim>\<open>F_OWNER_TID\<close> and the
  tid just read, and \<^verbatim>\<open>fcntl(F_SETSIG, SIGIO)\<close>, all on that descriptor.
\<close>

theorem C5_desched_counter_setup:
  assumes "set_up_buffer e s = Inr (u, s')" and "buffer s = 0"
  shows "attr_type (desched_attr e 1) = PERF_TYPE_SOFTWARE
       \<and> attr_config (desched_attr e 1) = PERF_COUNT_SW_CONTEXT_SWITCHES
       \<and> attr_sample_period (desched_attr e 1) = 1
       \<and> attr_disabled (desched_attr e 1) = 1
       \<and> desched_counter_fd s' = syscall_ret e (Traced SYS_perf_event_open
             [Attr_ptr (desched_attr e 1), Num 0, Num (- 1), Num (- 1), Num 0])
       \<and> (\<exists>rest. trace s' = trace s
             @ [Traced SYS_perf_event_open
                  [Attr_ptr (desched_attr e 1), Num 0, Num (- 1), Num (- 1), Num 0],
                Traced SYS_fcntl64 [Num (desched_counter_fd s'), Num F_SETFL, Num O_ASYNC],
                Traced SYS_gettid [],
                Traced SYS_fcntl64 [Num (desched_counter_fd s'), Num F_SETOWN_EX,
                  Owner_ptr \<lparr>own_type = F_OWNER_TID,
                             own_pid = syscall_ret e (Traced SYS_gettid [])\<rparr>],
                Traced SYS_fcntl64 [Num (desched_counter_fd s'), Num F_SETSIG, Num SIGIO]]
             @ rest)"
proof -
  from set_up_buffer_Inr [OF assms] obtain s1 rest where
    op: "open_desched_event_counter e 1 s = Inr (desched_counter_fd s', s1)"
    and tr: "trace s' = trace s1 @ rest"
    by blast
  from open_desched_event_counter_Inr [OF op] tr show ?thesis
    by (simp add: desched_attr_def Let_def)
qed

theorem C5_desched_counter_setup_witness:
  "\<exists>s'. set_up_buffer env0 shim0 = Inr ((), s')
     \<and> buffer shim0 = 0
     \<and> desched_counter_fd s' = 7
     \<and> attr_sample_period (desched_attr env0 1) = 1
     \<and> attr_config (desched_attr env0 1) = PERF_COUNT_SW_CONTEXT_SWITCHES
     \<and> take 5 (trace s') =
         [Traced SYS_perf_event_open
            [Attr_ptr (desched_attr env0 1), Num 0, Num (- 1), Num (- 1), Num 0],
          Traced SYS_fcntl64 [Num 7, Num F_SETFL, Num O_ASYNC],
          Traced SYS_gettid [],
          Traced SYS_fcntl64 [Num 7, Num F_SETOWN_EX,
            Owner_ptr \<lparr>own_type = F_OWNER_TID, own_pid = 4242\<rparr>],
          Traced SYS_fcntl64 [Num 7, Num F_SETSIG, Num SIGIO]]"
proof -
  have "\<exists>s'. set_up_buffer env0 shim0 = Inr ((), s')"
    by (simp add: set_up_buffer_def shim_assert_def and_then_def Let_def
        open_desched_event_counter_def traced_perf_event_open_def traced_fcntl_def
        traced_gettid_def traced_sigprocmask_def rrcall_init_syscall_buffer_def traced_def
        shim0_defs syscall_numbers)
  then obtain s' where h: "set_up_buffer env0 shim0 = Inr ((), s')"
    by blast
  have b: "buffer shim0 = 0"
    by (simp add: shim0_def)
  have k: "syscall_ret env0 (Traced SYS_perf_event_open
             [Attr_ptr (desched_attr env0 1), Num 0, Num (- 1), Num (- 1), Num 0]) = 7"
    "syscall_ret env0 (Traced SYS_gettid []) = 4242"
    by (simp_all add: env0_def kernel0_def syscall_numbers)
  from C5_desched_counter_setup [OF h b] k have
    "desched_counter_fd s' = 7"
    "attr_sample_period (desched_attr env0 1) = 1"
    "attr_config (desched_attr env0 1) = PERF_COUNT_SW_CONTEXT_SWITCHES"
    "take 5 (trace s') =
         [Traced SYS_perf_event_open
            [Attr_ptr (desched_attr env0 1), Num 0, Num (- 1), Num (- 1), Num 0],
          Traced SYS_fcntl64 [Num 7, Num F_SETFL, Num O_ASYNC],
          Traced SYS_gettid [],
          Traced SYS_fcntl64 [Num 7, Num F_SETOWN_EX,
            Owner_ptr \<lparr>own_type = F_OWNER_TID, own_pid = 4242\<rparr>],
          Traced SYS_fcntl64 [Num 7, Num F_SETSIG, Num SIGIO]]"
    by (auto simp: shim0_def)
  with h b show ?thesis
    by blast
qed

subsection \<open>Falling back to a traced syscall\<close>

lemma prep_syscall_locked:
  assumes "buffer s \<noteq> 0" and "buffer_locked s \<noteq> 0"
  shows "prep_syscall e m s = Inr (0, s)"
  using assms by (simp add: prep_syscall_def and_then_def)

lemma prep_syscall_unlocked:
  assumes "buffer s \<noteq> 0" and "buffer_locked s = 0"
  shows "prep_syscall e m s =
           Inr (buffer_last e s + sizeof_record e, store Buffer_locked 1 (s\<lparr>buffer_locked := 1\<rparr>))"
  using assms by (simp add: prep_syscall_def and_then_def Let_def buffer_last_def store_def)

text \<open>
  With the lock held by an outer call, the end pointer a wrapper computes from the null
  pointer is a small number; the stored end then lies below the end of the record header
  and the first check of \<^verbatim>\<open>can_buffer_syscall\<close> bails out.
\<close>

lemma can_buffer_syscall_reentrant:
  assumes pad: "stored_record_size e (p - buffer_last e s) - (p - buffer_last e s) < 4"
      and p: "p \<le> 16"
      and low: "19 < buffer_last e s + sizeof_record e"
  shows "can_buffer_syscall e p s = (0, s)"
proof -
  define d where "d = stored_record_size e (p - buffer_last e s) - (p - buffer_last e s)"
  have eq: "buffer_last e s + stored_record_size e (p - buffer_last e s) = p + d"
    by (simp add: d_def)
  have "d < 4"
    using pad by (simp add: d_def)
  with p have "p + d \<le> 19"
    by unat_arith
  with low have "p + d < buffer_last e s + sizeof_record e"
    by simp
  with eq show ?thesis
    by (simp add: can_buffer_syscall_def Let_def)
qed

lemma and_not3_split: "(x AND NOT 3) + (x AND 3) = (x :: 32 word)"
proof -
  have "(x AND NOT 3) AND (x AND 3) = 0"
    by (simp add: bit_eq_iff bit_simps)
  then have "(x AND NOT 3) + (x AND 3) = (x AND NOT 3) OR (x AND 3)"
    by (rule disjunctive_add_eq_or)
  also have "\<dots> = x"
    by (simp add: bit_eq_iff bit_simps) blast
  finally show ?thesis .
qed

text \<open>Rounding a length up to whole 32-bit words adds fewer than four bytes.\<close>

lemma round_up_pad: "((n + 3) AND NOT 3) - n < (4 :: 32 word)"
proof -
  let ?x = "n + 3"
  have le: "?x AND 3 \<le> 3"
    by (rule word_and_le1)
  have "(?x AND NOT 3) = ?x - (?x AND 3)"
    using and_not3_split [of ?x] by (simp add: algebra_simps)
  then have "(?x AND NOT 3) - n = 3 - (?x AND 3)"
    by simp
  also have "\<dots> \<le> 3"
    using le by (rule word_sub_le)
  finally show ?thesis
    by (simp add: word_less_nat_alt word_le_nat_alt)
qed

text \<open>
  A stored size that is not smaller than the length asked for, at an address where the
  stored record does not wrap around the address space, ends at or after the end of the
  record header: the first check of \<^verbatim>\<open>can_buffer_syscall\<close> does not fire.
\<close>

lemma stored_end_not_below:
  assumes "sizeof_record e \<le> n" and "n \<le> stored_record_size e n"
      and "unat S + unat (stored_record_size e n) < 2 ^ 32"
  shows "\<not> S + stored_record_size e n < S + sizeof_record e"
proof -
  from assms(1,2) have "sizeof_record e \<le> stored_record_size e n"
    by simp
  moreover from assms(3) have "S \<le> S + stored_record_size e n"
    by (simp add: no_olen_add_nat)
  ultimately have "S + sizeof_record e \<le> S + stored_record_size e n"
    by (rule word_plus_mono_right)
  then show ?thesis
    by simp
qed

lemma can_buffer_syscall_overflow:
  assumes "record_well_placed e s n" and "ring_cannot_fit e s n"
  shows "can_buffer_syscall e (buffer_last e s + n) s
           = (0, store Buffer_locked 0 (s\<lparr>buffer_locked := 0\<rparr>))"
proof -
  from assms(1) have
    "\<not> buffer_last e s + stored_record_size e n < buffer_last e s + sizeof_record e"
    unfolding record_well_placed_def by (intro stored_end_not_below) simp_all
  with assms(2) show ?thesis
    by (simp add: can_buffer_syscall_def Let_def ring_cannot_fit_def)
qed

lemma locked_state_simps:
  "buffer_last e (store Buffer_locked 1 (s\<lparr>buffer_locked := 1\<rparr>)) = buffer_last e s"
  "buffer_end e (store Buffer_locked 1 (s\<lparr>buffer_locked := 1\<rparr>)) = buffer_end e s"
  "store Buffer_locked 0 ((store Buffer_locked 1 (s\<lparr>buffer_locked := 1\<rparr>))\<lparr>buffer_locked := 0\<rparr>)
     = s\<lparr>buffer_locked := 0,
         trace := trace s @ [Store Buffer_locked 1, Store Buffer_locked 0]\<rparr>"
  by (simp_all add: buffer_last_def buffer_end_def store_def)

text \<open>
  A wrapper that took the lock and asks for \<open>n\<close> bytes which the ring cannot fit:
  \<^verbatim>\<open>can_buffer_syscall\<close> returns 0 in the state with the lock cleared again.
\<close>

lemma can_buffer_syscall_after_prep:
  assumes "record_well_placed e s n" and "ring_cannot_fit e s n"
  shows "can_buffer_syscall e (buffer_last e s + n)
           (store Buffer_locked 1 (s\<lparr>buffer_locked := 1\<rparr>))
         = (0, s\<lparr>buffer_locked := 0,
                  trace := trace s @ [Store Buffer_locked 1, Store Buffer_locked 0]\<rparr>)"
proof -
  let ?s1 = "store Buffer_locked 1 (s\<lparr>buffer_locked := 1\<rparr>)"
  from assms have "record_well_placed e ?s1 n" and "ring_cannot_fit e ?s1 n"
    by (simp_all add: record_well_placed_def ring_cannot_fit_def locked_state_simps)
  from can_buffer_syscall_overflow [OF this] show ?thesis
    by (simp add: locked_state_simps)
qed

text \<open>
  C6: a buffered-syscall wrapper entered while \<^verbatim>\<open>buffer_locked\<close> is nonzero. Provided
  that \<^verbatim>\<open>stored_record_size\<close> pads a length by fewer than four bytes and that the end
  of the next record header is an address above 19: \<^verbatim>\<open>prep_syscall\<close> returns the null
  pointer and leaves the state as it is; \<^verbatim>\<open>can_buffer_syscall\<close> returns 0 and leaves
  the state as it is for every end pointer a wrapper computes from the null pointer;
  and both wrappers, \<^verbatim>\<open>clock_gettime\<close> and \<^verbatim>\<open>gettimeofday\<close>, do nothing but make
  the traced syscall, which leaves the buffer, its header with \<^verbatim>\<open>num_rec_bytes\<close>, its
  records and its lock unchanged and adds one traced syscall to the trace.
\<close>

theorem C6_reentrant_wrapper_falls_back:
  assumes buf: "buffer s \<noteq> 0" and locked: "buffer_locked s \<noteq> 0"
      and pad: "\<forall>n. stored_record_size e n - n < 4"
      and low: "19 < buffer_last e s + sizeof_record e"
  shows "prep_syscall e notify_desched s = Inr (0, s)
       \<and> (\<forall>p\<le>16. can_buffer_syscall e p s = (0, s))
       \<and> clock_gettime e clk_id tp s =
           Inr (traced e SYS_clock_gettime [Num clk_id, Ptr tp] s)
       \<and> gettimeofday e tvp tzp s =
           Inr (traced e SYS_gettimeofday [Ptr tvp, Ptr tzp] s)
       \<and> ring_unchanged s (snd (traced e SYS_clock_gettime [Num clk_id, Ptr tp] s))
       \<and> ring_unchanged s (snd (traced e SYS_gettimeofday [Ptr tvp, Ptr tzp] s))
       \<and> trace (snd (traced e SYS_clock_gettime [Num clk_id, Ptr tp] s))
           = trace s @ [Traced SYS_clock_gettime [Num clk_id, Ptr tp]]
       \<and> trace (snd (traced e SYS_gettimeofday [Ptr tvp, Ptr tzp] s))
           = trace s @ [Traced SYS_gettimeofday [Ptr tvp, Ptr tzp]]"
proof -
  have prep: "prep_syscall e m s = Inr (0, s)" for m
    using buf locked by (rule prep_syscall_locked)
  have can: "can_buffer_syscall e p s = (0, s)" if "p \<le> 16" for p
    using pad that low by (intro can_buffer_syscall_reentrant) auto
  have "(if tp \<noteq> 0 then 0 + sizeof_timespec else 0) \<le> (16 :: 32 word)"
    by (simp add: sizeof_timespec_def)
  then have can_c: "can_buffer_syscall e (if tp \<noteq> 0 then 0 + sizeof_timespec else 0) s = (0, s)"
    by (rule can)
  let ?p = "(if tzp \<noteq> 0 then (if tvp \<noteq> 0 then 0 + sizeof_timeval else 0) + sizeof_timezone
             else (if tvp \<noteq> 0 then 0 + sizeof_timeval else 0)) :: 32 word"
  have "?p \<le> 16"
    by (simp add: sizeof_timeval_def sizeof_timezone_def)
  then have can_g: "can_buffer_syscall e ?p s = (0, s)"
    by (rule can)
  have c: "clock_gettime e clk_id tp s =
           Inr (traced e SYS_clock_gettime [Num clk_id, Ptr tp] s)"
    using can_c by (simp add: clock_gettime_def and_then_def prep Let_def)
  have g: "gettimeofday e tvp tzp s =
           Inr (traced e SYS_gettimeofday [Ptr tvp, Ptr tzp] s)"
    using can_g by (simp add: gettimeofday_def and_then_def prep Let_def)
  from prep can c g show ?thesis
    by (simp add: traced_ring_unchanged traced_simps)
qed

theorem C6_reentrant_wrapper_falls_back_witness:
  "buffer shim_locked \<noteq> 0 \<and> buffer_locked shim_locked \<noteq> 0
   \<and> prep_syscall env_efault NO_DESCHED shim_locked = Inr (0, shim_locked)
   \<and> can_buffer_syscall env_efault 8 shim_locked = (0, shim_locked)
   \<and> clock_gettime env_efault 1 3221221000 shim_locked =
       Inr (0, shim_locked\<lparr>trace := [Traced SYS_clock_gettime [Num 1, Ptr 3221221000]]\<rparr>)
   \<and> gettimeofday env_efault 1 0 shim_locked =
       Inr (- 1, shim_locked\<lparr>errno := 14,
                               trace := [Traced SYS_gettimeofday [Ptr 1, Ptr 0]]\<rparr>)"
proof -
  have buf: "buffer shim_locked \<noteq> 0" and locked: "buffer_locked shim_locked \<noteq> 0"
    by (simp_all add: shim0_defs)
  have pad: "\<forall>n. stored_record_size env_efault n - n < 4"
    unfolding env_efault_def env0_def by (simp only: shim_env.simps round_up_pad simp_thms)
  have low: "19 < buffer_last env_efault shim_locked + sizeof_record env_efault"
    by (simp add: buffer_last_def env_efault_def shim0_defs)
  have le: "(8 :: 32 word) \<le> 16"
    by simp
  note inst = C6_reentrant_wrapper_falls_back [OF buf locked pad low]
  from inst [of NO_DESCHED] have "prep_syscall env_efault NO_DESCHED shim_locked = Inr (0, shim_locked)"
    by simp
  moreover from inst [of NO_DESCHED] le have
    "can_buffer_syscall env_efault 8 shim_locked = (0, shim_locked)"
    by blast
  moreover from inst [of NO_DESCHED 1 3221221000] have
    "clock_gettime env_efault 1 3221221000 shim_locked =
       Inr (0, shim_locked\<lparr>trace := [Traced SYS_clock_gettime [Num 1, Ptr 3221221000]]\<rparr>)"
    by (simp add: traced_def env_efault_def shim0_defs syscall_numbers)
  moreover from inst [of NO_DESCHED _ _ 1 0] have
    "gettimeofday env_efault 1 0 shim_locked =
       Inr (- 1, shim_locked\<lparr>errno := 14,
                               trace := [Traced SYS_gettimeofday [Ptr 1, Ptr 0]]\<rparr>)"
    by (simp add: traced_def env_efault_def shim0_defs syscall_numbers)
  ultimately show ?thesis
    using buf locked by simp
qed

text \<open>
  C7: a buffered-syscall wrapper entered with the ring unlocked, asking for a well
  placed record. If the stored record would end beyond \<^verbatim>\<open>buffer_end()\<close> minus the size
  of a record header, then \<^verbatim>\<open>can_buffer_syscall\<close> clears \<^verbatim>\<open>buffer_locked\<close> and
  returns 0, and both wrappers, \<^verbatim>\<open>clock_gettime\<close> and \<^verbatim>\<open>gettimeofday\<close>, make the
  traced syscall after the lock was taken and cleared again; the buffer, its header with
  \<^verbatim>\<open>num_rec_bytes\<close>, its records and its lock are as they were before the call.
\<close>

theorem C7_full_ring_falls_back:
  assumes buf: "buffer s \<noteq> 0" and unlocked: "buffer_locked s = 0"
  shows "(record_well_placed e s0 n \<and> ring_cannot_fit e s0 n \<longrightarrow>
            can_buffer_syscall e (buffer_last e s0 + n) s0
              = (0, store Buffer_locked 0 (s0\<lparr>buffer_locked := 0\<rparr>)))
       \<and> (record_well_placed e s (clock_gettime_len e tp)
            \<and> ring_cannot_fit e s (clock_gettime_len e tp) \<longrightarrow>
            clock_gettime e clk_id tp s =
              Inr (traced e SYS_clock_gettime [Num clk_id, Ptr tp]
                     (s\<lparr>buffer_locked := 0,
                        trace := trace s @ [Store Buffer_locked 1, Store Buffer_locked 0]\<rparr>)))
       \<and> (record_well_placed e s (gettimeofday_len e tvp tzp)
            \<and> ring_cannot_fit e s (gettimeofday_len e tvp tzp) \<longrightarrow>
            gettimeofday e tvp tzp s =
              Inr (traced e SYS_gettimeofday [Ptr tvp, Ptr tzp]
                     (s\<lparr>buffer_locked := 0,
                        trace := trace s @ [Store Buffer_locked 1, Store Buffer_locked 0]\<rparr>)))
       \<and> ring_unchanged s
            (snd (traced e no as
                    (s\<lparr>buffer_locked := 0,
                       trace := trace s @ [Store Buffer_locked 1, Store Buffer_locked 0]\<rparr>)))"
proof -
  let ?s1 = "store Buffer_locked 1 (s\<lparr>buffer_locked := 1\<rparr>)"
  let ?p = "buffer_last e s + sizeof_record e"
  have prep: "prep_syscall e m s = Inr (?p, ?s1)" for m
    using buf unlocked by (rule prep_syscall_unlocked)
  have general: "record_well_placed e s0 n \<and> ring_cannot_fit e s0 n \<longrightarrow>
            can_buffer_syscall e (buffer_last e s0 + n) s0
              = (0, store Buffer_locked 0 (s0\<lparr>buffer_locked := 0\<rparr>))"
    by (auto intro: can_buffer_syscall_overflow)
  have c: "clock_gettime e clk_id tp s =
              Inr (traced e SYS_clock_gettime [Num clk_id, Ptr tp]
                     (s\<lparr>buffer_locked := 0,
                        trace := trace s @ [Store Buffer_locked 1, Store Buffer_locked 0]\<rparr>))"
    if "record_well_placed e s (clock_gettime_len e tp)"
      and "ring_cannot_fit e s (clock_gettime_len e tp)"
  proof -
    have ptr: "(if tp \<noteq> 0 then ?p + sizeof_timespec else ?p)
        = buffer_last e s + clock_gettime_len e tp"
      by (simp add: clock_gettime_len_def)
    from can_buffer_syscall_after_prep [OF that] show ?thesis
      unfolding clock_gettime_def and_then_def prep
      by (simp add: Let_def ptr)
  qed
  have g: "gettimeofday e tvp tzp s =
              Inr (traced e SYS_gettimeofday [Ptr tvp, Ptr tzp]
                     (s\<lparr>buffer_locked := 0,
                        trace := trace s @ [Store Buffer_locked 1, Store Buffer_locked 0]\<rparr>))"
    if "record_well_placed e s (gettimeofday_len e tvp tzp)"
      and "ring_cannot_fit e s (gettimeofday_len e tvp tzp)"
  proof -
    have ptr: "(if tzp \<noteq> 0 then (if tvp \<noteq> 0 then ?p + sizeof_timeval else ?p) + sizeof_timezone
                else (if tvp \<noteq> 0 then ?p + sizeof_timeval else ?p))
        = buffer_last e s + gettimeofday_len e tvp tzp"
      by (simp add: gettimeofday_len_def)
    from can_buffer_syscall_after_prep [OF that] show ?thesis
      unfolding gettimeofday_def and_then_def prep
      by (simp add: Let_def ptr)
  qed
  have ring: "ring_unchanged s
            (snd (traced e no as
                    (s\<lparr>buffer_locked := 0,
                       trace := trace s @ [Store Buffer_locked 1, Store Buffer_locked 0]\<rparr>)))"
    using unlocked by (simp add: ring_unchanged_def traced_simps)
  from c have c': "record_well_placed e s (clock_gettime_len e tp)
            \<and> ring_cannot_fit e s (clock_gettime_len e tp) \<longrightarrow>
            clock_gettime e clk_id tp s =
              Inr (traced e SYS_clock_gettime [Num clk_id, Ptr tp]
                     (s\<lparr>buffer_locked := 0,
                        trace := trace s @ [Store Buffer_locked 1, Store Buffer_locked 0]\<rparr>))"
    by (intro impI) (elim conjE)
  from g have g': "record_well_placed e s (gettimeofday_len e tvp tzp)
            \<and> ring_cannot_fit e s (gettimeofday_len e tvp tzp) \<longrightarrow>
            gettimeofday e tvp tzp s =
              Inr (traced e SYS_gettimeofday [Ptr tvp, Ptr tzp]
                     (s\<lparr>buffer_locked := 0,
                        trace := trace s @ [Store Buffer_locked 1, Store Buffer_locked 0]\<rparr>))"
    by (intro impI) (elim conjE)
  show ?thesis
    by (rule conjI [OF general conjI [OF c' conjI [OF g' ring]]])
qed

theorem C7_full_ring_falls_back_witness:
  "buffer shim_nearly_full \<noteq> 0 \<and> buffer_locked shim_nearly_full = 0
   \<and> record_well_placed env0 shim_nearly_full 16 \<and> ring_cannot_fit env0 shim_nearly_full 16
   \<and> record_well_placed env0 shim_nearly_full 24 \<and> ring_cannot_fit env0 shim_nearly_full 24
   \<and> can_buffer_syscall env0 (buffer_last env0 shim_nearly_full + 16) shim_nearly_full
       = (0, store Buffer_locked 0 (shim_nearly_full\<lparr>buffer_locked := 0\<rparr>))
   \<and> clock_gettime env0 1 3221221000 shim_nearly_full =
       Inr (0, shim_nearly_full
                 \<lparr>buffer_locked := 0,
                  trace := [Store Buffer_locked 1, Store Buffer_locked 0,
                            Traced SYS_clock_gettime [Num 1, Ptr 3221221000]]\<rparr>)
   \<and> gettimeofday env0 3221221000 3221221100 shim_nearly_full =
       Inr (0, shim_nearly_full
                 \<lparr>buffer_locked := 0,
                  trace := [Store Buffer_locked 1, Store Buffer_locked 0,
                            Traced SYS_gettimeofday [Ptr 3221221000, Ptr 3221221100]]\<rparr>)"
proof -
  have buf: "buffer shim_nearly_full \<noteq> 0" and unlocked: "buffer_locked shim_nearly_full = 0"
    by (simp_all add: shim0_defs)
  have p16: "record_well_placed env0 shim_nearly_full 16"
    and f16: "ring_cannot_fit env0 shim_nearly_full 16"
    and p24: "record_well_placed env0 shim_nearly_full 24"
    and f24: "ring_cannot_fit env0 shim_nearly_full 24"
    by (simp_all add: record_well_placed_def ring_cannot_fit_def buffer_last_def
        buffer_end_def shim0_defs)
  have lc: "clock_gettime_len env0 3221221000 = 16"
    by (simp add: clock_gettime_len_def env0_def sizeof_timespec_def)
  have lg: "gettimeofday_len env0 3221221000 3221221100 = 24"
    by (simp add: gettimeofday_len_def env0_def sizeof_timeval_def sizeof_timezone_def)
  note inst = C7_full_ring_falls_back [OF buf unlocked]
  from inst [of env0 shim_nearly_full 16] p16 f16 have
    "can_buffer_syscall env0 (buffer_last env0 shim_nearly_full + 16) shim_nearly_full
       = (0, store Buffer_locked 0 (shim_nearly_full\<lparr>buffer_locked := 0\<rparr>))"
    by blast
  moreover from inst [of env0 _ _ 3221221000 1] p16 f16 lc have
    "clock_gettime env0 1 3221221000 shim_nearly_full =
       Inr (traced env0 SYS_clock_gettime [Num 1, Ptr 3221221000]
              (shim_nearly_full
                 \<lparr>buffer_locked := 0,
                  trace := trace shim_nearly_full
                             @ [Store Buffer_locked 1, Store Buffer_locked 0]\<rparr>))"
    by simp
  moreover from inst [of env0 _ _ _ _ 3221221000 3221221100] p24 f24 lg have
    "gettimeofday env0 3221221000 3221221100 shim_nearly_full =
       Inr (traced env0 SYS_gettimeofday [Ptr 3221221000, Ptr 3221221100]
              (shim_nearly_full
                 \<lparr>buffer_locked := 0,
                  trace := trace shim_nearly_full
                             @ [Store Buffer_locked 1, Store Buffer_locked 0]\<rparr>))"
    by simp
  ultimately show ?thesis
    using buf unlocked p16 f16 p24 f24
    by (simp add: traced_def shim0_defs syscall_numbers)
qed

end
